theory Spec2Isabelle
  imports Complex_Main
begin

section \<open>Data model\<close>

text \<open>
  The source is \<^verbatim>\<open>src/car-search-backend.py\<close>. Its three pydantic classes become
  records. Python \<^verbatim>\<open>int\<close> is \<^typ>\<open>int\<close>. A Python \<^verbatim>\<open>float\<close> is read as the rational
  number it denotes: the model covers finite floats, whose comparisons (\<^verbatim>\<open><\<close>, \<^verbatim>\<open>>\<close>)
  and whose truth value (false exactly at zero) are those of the rationals; NaN and the
  infinities are outside the model. A Python \<^verbatim>\<open>str\<close> is a \<^typ>\<open>string\<close> of code points
  below 256. \<^verbatim>\<open>posting_date\<close> is a time stamp, kept as an integer; no function of
  the source reads it.
  The field \<^verbatim>\<open>make\<close> of a listing is named \<open>car_make\<close>, since every record
  comes with a constant \<open>make\<close> of its own.
\<close>

record CarListing =
  site_source :: string
  title :: string
  car_make :: string
  model :: string
  year :: int
  price :: rat
  mileage :: int
  fuel_type :: string
  location :: string
  url :: string
  description :: string
  posting_date :: int
  seller_type :: string
  images :: "string list"

text \<open>
  \<^verbatim>\<open>SearchParams\<close>: every field is \<^verbatim>\<open>Optional\<close> with default \<^verbatim>\<open>None\<close>. Four of its
  field names (\<^verbatim>\<open>make\<close>, \<^verbatim>\<open>model\<close>, \<^verbatim>\<open>fuel_type\<close>, \<^verbatim>\<open>location\<close>) are also fields of
  \<^verbatim>\<open>CarListing\<close>; here they carry the prefix \<open>params_\<close>.
\<close>

record SearchParams =
  params_make :: "string option"
  params_model :: "string option"
  min_price :: "rat option"
  max_price :: "rat option"
  min_year :: "int option"
  max_year :: "int option"
  max_mileage :: "int option"
  params_fuel_type :: "string option"
  params_location :: "string option"
  body_type :: "string option"
  transmission :: "string option"
  color :: "string option"

record NotificationParams =
  search_params :: SearchParams
  email :: string

text \<open>\<^verbatim>\<open>SearchParams()\<close>: the parameters with every field left at its default.\<close>

definition no_params :: SearchParams where
  "no_params =
     \<lparr>params_make = None, params_model = None, min_price = None, max_price = None,
      min_year = None, max_year = None, max_mileage = None, params_fuel_type = None,
      params_location = None, body_type = None, transmission = None, color = None\<rparr>"

text \<open>The exceptions the modelled code can raise.\<close>

datatype error =
    AttributeError
  | TypeError
  | KeyError
  | ValueError
  | HTTPException nat string

section \<open>Python primitives used by the source\<close>

text \<open>
  A condition \<^verbatim>\<open>p and c\<close> on an \<^verbatim>\<open>Optional\<close> number \<^verbatim>\<open>p\<close>: \<^verbatim>\<open>None\<close> and zero are
  false, and then \<^verbatim>\<open>c\<close> is not evaluated; otherwise the condition is \<^verbatim>\<open>c\<close>, which
  reads the number.
\<close>

definition num_and :: "'a::zero option \<Rightarrow> ('a \<Rightarrow> bool) \<Rightarrow> bool" where
  "num_and p c = (case p of None \<Rightarrow> False | Some v \<Rightarrow> v \<noteq> 0 \<and> c v)"

text \<open>
  The same on an \<^verbatim>\<open>Optional\<close> string: \<^verbatim>\<open>None\<close> and the empty string are false.
\<close>

definition str_and :: "string option \<Rightarrow> (string \<Rightarrow> bool) \<Rightarrow> bool" where
  "str_and p c = (case p of None \<Rightarrow> False | Some s \<Rightarrow> s \<noteq> [] \<and> c s)"

definition truthy_str :: "string option \<Rightarrow> bool" where
  "truthy_str p = str_and p (\<lambda>s. True)"

text \<open>
  \<^verbatim>\<open>str.lower()\<close> on code points below 256: the letters A to Z and the upper-case
  letters of Latin-1 (192 to 222, without the multiplication sign 215) move up by 32.
\<close>

definition lower_char :: "char \<Rightarrow> char" where
  "lower_char c =
     (let n = (of_char c :: nat)
      in if (65 \<le> n \<and> n \<le> 90) \<or> (192 \<le> n \<and> n \<le> 222 \<and> n \<noteq> 215)
         then char_of (n + 32) else c)"

definition lower :: "string \<Rightarrow> string" where
  "lower s = map lower_char s"

text \<open>
  \<^verbatim>\<open>str.strip()\<close>: white space is removed at both ends. Below 256 the white-space
  code points are 9 to 13, 28 to 32, 133 and 160.
\<close>

definition is_space :: "char \<Rightarrow> bool" where
  "is_space c =
     (let n = (of_char c :: nat)
      in (9 \<le> n \<and> n \<le> 13) \<or> (28 \<le> n \<and> n \<le> 32) \<or> n = 133 \<or> n = 160)"

definition strip :: "string \<Rightarrow> string" where
  "strip s = rev (dropWhile is_space (rev (dropWhile is_space s)))"

text \<open>An \<^verbatim>\<open>Optional[str]\<close> inside an f-string: \<^verbatim>\<open>None\<close> prints as \<^verbatim>\<open>None\<close>.\<close>

definition fmt_opt :: "string option \<Rightarrow> string" where
  "fmt_opt v = (case v of None \<Rightarrow> ''None'' | Some s \<Rightarrow> s)"

text \<open>
  \<^verbatim>\<open>template.format(query=q)\<close> for the templates of \<^verbatim>\<open>SITES\<close>, whose only braces
  are those of the field \<^verbatim>\<open>{query}\<close>: each occurrence of the field is replaced by \<open>q\<close>.
\<close>

function format_query :: "string \<Rightarrow> string \<Rightarrow> string" where
  "format_query [] q = []"
| "format_query (c # cs) q =
     (if take 7 (c # cs) = ''{query}'' then q @ format_query (drop 7 (c # cs)) q
      else c # format_query cs q)"
  by pat_completeness auto
termination
  by (relation "measure (\<lambda>(t, q). length t)") auto

section \<open>The criteria matcher\<close>

text \<open>
  \<^verbatim>\<open>matches_criteria(listing, params)\<close>, lines 94 to 114. The nine tests run in the
  source's order, each of the form \<^verbatim>\<open>if p and c: return False\<close>. \<^verbatim>\<open>CarListing\<close>
  declares no field \<^verbatim>\<open>body_type\<close>, \<^verbatim>\<open>transmission\<close> or \<^verbatim>\<open>color\<close>, so reading one of
  them from a listing (lines 108, 110, 112) raises \<^verbatim>\<open>AttributeError\<close>; the read
  happens exactly when the parameter is true in the condition and no earlier test has
  returned. \<^verbatim>\<open>params.make\<close>, \<^verbatim>\<open>params.model\<close> and \<^verbatim>\<open>params.location\<close> are not read.
\<close>

definition matches_criteria :: "CarListing \<Rightarrow> SearchParams \<Rightarrow> error + bool" where
  "matches_criteria listing params =
     (if num_and (min_price params) (\<lambda>m. price listing < m) then Inr False
      else if num_and (max_price params) (\<lambda>m. price listing > m) then Inr False
      else if num_and (min_year params) (\<lambda>m. year listing < m) then Inr False
      else if num_and (max_year params) (\<lambda>m. year listing > m) then Inr False
      else if num_and (max_mileage params) (\<lambda>m. mileage listing > m) then Inr False
      else if str_and (params_fuel_type params) (\<lambda>f. lower (fuel_type listing) \<noteq> lower f)
        then Inr False
      else if truthy_str (body_type params) then Inl AttributeError
      else if truthy_str (transmission params) then Inl AttributeError
      else if truthy_str (color params) then Inl AttributeError
      else Inr True)"

section \<open>Source adapters\<close>

text \<open>The table \<^verbatim>\<open>SITES\<close>, lines 54 to 63, in the order of its keys.\<close>

record site_config =
  search_url :: string
  listing_selector :: string

definition SITES :: "(string \<times> site_config) list" where
  "SITES =
     [(''leboncoin'',
       \<lparr>search_url = ''https://www.leboncoin.fr/recherche?category=2&text={query}'',
        listing_selector = ''article.styles_adCard__2YFTi''\<rparr>),
      (''lacentrale'',
       \<lparr>search_url = ''https://www.lacentrale.fr/listing?makesModels={query}'',
        listing_selector = ''div.searchCard''\<rparr>)]"

text \<open>
  What the network gives back for one \<^verbatim>\<open>session.get(url)\<close>. \<open>Raises\<close> stands for any
  exception raised inside the \<^verbatim>\<open>try\<close> block before the loop over the elements
  (connection failure, timeout, a body that cannot be read). \<open>Reply status select\<close> is
  a response with that status whose body, once parsed, yields the elements
  \<open>select sel\<close> for the selector \<open>sel\<close>. The session is the function from URLs to
  replies. The type \<open>'e\<close> is that of the page elements.
\<close>

datatype 'e reply = Raises | Reply int "string \<Rightarrow> 'e list"

text \<open>
  The loop of lines 77 to 83. \<^verbatim>\<open>parse_listing\<close> has no body in the source (lines 90
  to 92: a doc string and a comment), so it is a parameter here: for a site name and
  an element it raises or returns a listing. An element is appended when
  \<^verbatim>\<open>matches_criteria\<close> returns \<^verbatim>\<open>True\<close>; an exception raised by either call is caught
  by the inner \<^verbatim>\<open>except\<close> and the element is skipped. What \<^verbatim>\<open>print\<close> writes is not
  modelled.
\<close>

fun scrape_loop ::
  "(string \<Rightarrow> 'e \<Rightarrow> error + CarListing) \<Rightarrow> string \<Rightarrow> SearchParams \<Rightarrow> 'e list \<Rightarrow> CarListing list"
where
  "scrape_loop parse_listing site_name params [] = []"
| "scrape_loop parse_listing site_name params (listing_elem # rest) =
     (case parse_listing site_name listing_elem of
        Inl e \<Rightarrow> scrape_loop parse_listing site_name params rest
      | Inr listing \<Rightarrow>
          (case matches_criteria listing params of
             Inl e \<Rightarrow> scrape_loop parse_listing site_name params rest
           | Inr b \<Rightarrow>
               if b then listing # scrape_loop parse_listing site_name params rest
               else scrape_loop parse_listing site_name params rest))"

text \<open>
  \<^verbatim>\<open>scrape_site\<close>, lines 66 to 88. The result \<open>Some ls\<close> is a returned list, \<open>None\<close>
  is Python's \<^verbatim>\<open>None\<close>: when the status is not 200 the \<^verbatim>\<open>if\<close> of line 72 has no
  \<^verbatim>\<open>else\<close>, control leaves the \<^verbatim>\<open>try\<close> without an exception and reaches the end of
  the function, which has no \<^verbatim>\<open>return\<close> there. The look-up \<^verbatim>\<open>SITES[site_name]\<close> is
  outside the \<^verbatim>\<open>try\<close>.
\<close>

definition scrape_site ::
  "(string \<Rightarrow> 'e reply) \<Rightarrow> (string \<Rightarrow> 'e \<Rightarrow> error + CarListing) \<Rightarrow> string \<Rightarrow> SearchParams
     \<Rightarrow> error + CarListing list option"
where
  "scrape_site session parse_listing site_name params =
     (case map_of SITES site_name of
        None \<Rightarrow> Inl KeyError
      | Some site_config \<Rightarrow>
          (let query = strip (fmt_opt (params_make params) @ '' ''
                              @ fmt_opt (params_model params))
           in case session (format_query (search_url site_config) query) of
                Raises \<Rightarrow> Inr (Some [])
              | Reply status select \<Rightarrow>
                  if status = 200
                  then Inr (Some (scrape_loop parse_listing site_name params
                                    (select (listing_selector site_config))))
                  else Inr None))"

section \<open>The store\<close>

text \<open>
  \<^verbatim>\<open>db.listings\<close> is a collection of the document store. The source creates no index
  on it, so each insertion adds a document, and \<^verbatim>\<open>find_one({"url": u})\<close> is the first
  document with that URL or \<^verbatim>\<open>None\<close>. A document is \<^verbatim>\<open>listing.dict()\<close>, which has the
  fields of the listing. The store is taken as reachable: its calls do not raise.
\<close>

type_synonym store = "CarListing list"

definition insert_many :: "store \<Rightarrow> CarListing list \<Rightarrow> store" where
  "insert_many db docs = db @ docs"

definition insert_one :: "store \<Rightarrow> CarListing \<Rightarrow> store" where
  "insert_one db doc = db @ [doc]"

definition find_one :: "store \<Rightarrow> string \<Rightarrow> CarListing option" where
  "find_one db u = find (\<lambda>doc. url doc = u) db"

section \<open>The search operation\<close>

text \<open>
  \<^verbatim>\<open>asyncio.gather\<close> returns the results in the order of the tasks and passes on the
  first exception. The tasks share no state, so running them one after the other
  gives the same results.
\<close>

fun gather :: "(error + 'a) list \<Rightarrow> error + 'a list" where
  "gather [] = Inr []"
| "gather (Inl e # rest) = Inl e"
| "gather (Inr r # rest) = (case gather rest of Inl e \<Rightarrow> Inl e | Inr rs \<Rightarrow> Inr (r # rs))"

text \<open>
  Lines 128 to 130: \<^verbatim>\<open>all_listings.extend(site_results)\<close> for each result in turn.
  \<^verbatim>\<open>extend(None)\<close> raises \<^verbatim>\<open>TypeError\<close>, since \<^verbatim>\<open>None\<close> is not iterable.
\<close>

fun extend_all :: "CarListing list \<Rightarrow> CarListing list option list \<Rightarrow> error + CarListing list" where
  "extend_all all_listings [] = Inr all_listings"
| "extend_all all_listings (None # rest) = Inl TypeError"
| "extend_all all_listings (Some site_results # rest) =
     extend_all (all_listings @ site_results) rest"

text \<open>
  \<^verbatim>\<open>search_cars\<close>, lines 117 to 136. It returns the listings of the response
  \<^verbatim>\<open>{"listings": all_listings}\<close> and the store after the call, or the exception that
  leaves the handler; an exception is raised before line 134, so the store is then as
  it was.
\<close>

definition search_cars ::
  "(string \<Rightarrow> 'e reply) \<Rightarrow> (string \<Rightarrow> 'e \<Rightarrow> error + CarListing) \<Rightarrow> SearchParams \<Rightarrow> store
     \<Rightarrow> error + (CarListing list \<times> store)"
where
  "search_cars session parse_listing params db =
     (case gather (map (\<lambda>site_name. scrape_site session parse_listing site_name params)
                       (map fst SITES)) of
        Inl e \<Rightarrow> Inl e
      | Inr results \<Rightarrow>
          (case extend_all [] results of
             Inl e \<Rightarrow> Inl e
           | Inr all_listings \<Rightarrow>
               Inr (all_listings,
                    if all_listings \<noteq> [] then insert_many db all_listings else db)))"

section \<open>Subscriptions\<close>

text \<open>
  \<^verbatim>\<open>active_subscriptions\<close> is a Python set of \<^verbatim>\<open>NotificationParams\<close> (line 51),
  empty when the program starts. A Python set hashes an object before it adds it,
  looks it up or removes it. \<^verbatim>\<open>NotificationParams\<close> (lines 41 to 43) is a pydantic
  model with no configuration of its own: \<^verbatim>\<open>BaseModel\<close> defines \<^verbatim>\<open>__eq__\<close>, and a
  class that defines \<^verbatim>\<open>__eq__\<close> has no \<^verbatim>\<open>__hash__\<close> unless it is given one, which
  pydantic does for frozen models only. So \<^verbatim>\<open>hash(params)\<close> raises \<^verbatim>\<open>TypeError\<close>
  for every value of the class.
\<close>

definition hash_params :: "NotificationParams \<Rightarrow> error + int" where
  "hash_params params = Inl TypeError"

text \<open>
  \<^verbatim>\<open>s.add(x)\<close>, \<^verbatim>\<open>x in s\<close> and \<^verbatim>\<open>s.remove(x)\<close> on a set of such objects: the hash
  comes first, then the operation on the set; \<^verbatim>\<open>remove\<close> of a missing member raises
  \<^verbatim>\<open>KeyError\<close>.
\<close>

definition set_add ::
  "NotificationParams \<Rightarrow> NotificationParams set \<Rightarrow> error + NotificationParams set"
where
  "set_add x s = (case hash_params x of Inl e \<Rightarrow> Inl e | Inr h \<Rightarrow> Inr (insert x s))"

definition set_contains :: "NotificationParams \<Rightarrow> NotificationParams set \<Rightarrow> error + bool" where
  "set_contains x s = (case hash_params x of Inl e \<Rightarrow> Inl e | Inr h \<Rightarrow> Inr (x \<in> s))"

definition set_remove ::
  "NotificationParams \<Rightarrow> NotificationParams set \<Rightarrow> error + NotificationParams set"
where
  "set_remove x s =
     (case hash_params x of
        Inl e \<Rightarrow> Inl e
      | Inr h \<Rightarrow> if x \<in> s then Inr (s - {x}) else Inl KeyError)"

text \<open>
  \<^verbatim>\<open>subscribe_to_notifications\<close>, lines 138 to 141. Each handler returns its response,
  or the exception that leaves it, with the set after the call. The handler has one
  response, returned after \<^verbatim>\<open>add\<close>.
\<close>

definition subscribe_to_notifications ::
  "NotificationParams \<Rightarrow> NotificationParams set \<Rightarrow> (error + string) \<times> NotificationParams set"
where
  "subscribe_to_notifications params active_subscriptions =
     (case set_add params active_subscriptions of
        Inl e \<Rightarrow> (Inl e, active_subscriptions)
      | Inr added \<Rightarrow> (Inr ''Subscription created successfully'', added))"

text \<open>
  \<^verbatim>\<open>unsubscribe_from_notifications\<close>, lines 143 to 149: the membership test of line
  145, then \<^verbatim>\<open>remove\<close> and the deleted response, or
  \<^verbatim>\<open>HTTPException(status_code=404, detail="Subscription not found")\<close> in the \<^verbatim>\<open>else\<close>
  branch, which does not touch the set.
\<close>

definition unsubscribe_from_notifications ::
  "NotificationParams \<Rightarrow> NotificationParams set \<Rightarrow> (error + string) \<times> NotificationParams set"
where
  "unsubscribe_from_notifications params active_subscriptions =
     (case set_contains params active_subscriptions of
        Inl e \<Rightarrow> (Inl e, active_subscriptions)
      | Inr present \<Rightarrow>
          if present
          then (case set_remove params active_subscriptions of
                  Inl e \<Rightarrow> (Inl e, active_subscriptions)
                | Inr removed \<Rightarrow> (Inr ''Subscription deleted successfully'', removed))
          else (Inl (HTTPException 404 ''Subscription not found''), active_subscriptions))"

section \<open>The notification tick\<close>

text \<open>
  Line 167 is \<^verbatim>\<open>listings = await search_cars(subscription.search_params)["listings"]\<close>.
  A subscription binds tighter than \<^verbatim>\<open>await\<close>, so the line subscripts the value of the
  call \<^verbatim>\<open>search_cars(...)\<close>. Calling an \<^verbatim>\<open>async def\<close> function runs none of its body: it
  builds a coroutine object, and a coroutine object has no \<^verbatim>\<open>__getitem__\<close>, so the
  subscription raises \<^verbatim>\<open>TypeError\<close>.
\<close>

datatype coroutine = Coroutine_search_cars SearchParams

definition getitem :: "coroutine \<Rightarrow> string \<Rightarrow> error + CarListing list" where
  "getitem c key = Inl TypeError"

text \<open>Lines 168 to 171: the listings whose URL the store does not have yet.\<close>

fun new_loop :: "CarListing list \<Rightarrow> CarListing list \<Rightarrow> store \<Rightarrow> CarListing list \<times> store" where
  "new_loop [] new_listings db = (new_listings, db)"
| "new_loop (listing # rest) new_listings db =
     (if find_one db (url listing) = None
      then new_loop rest (new_listings @ [listing]) (insert_one db listing)
      else new_loop rest new_listings db)"

text \<open>
  \<^verbatim>\<open>check_for_new_listings\<close>, lines 164 to 172. The subscriptions come as the list in
  which the \<^verbatim>\<open>for\<close> loop of line 166 meets the members of the set.
\<close>

fun check_loop ::
  "NotificationParams list \<Rightarrow> CarListing list \<Rightarrow> store \<Rightarrow> error + (CarListing list \<times> store)"
where
  "check_loop [] new_listings db = Inr (new_listings, db)"
| "check_loop (subscription # rest) new_listings db =
     (case getitem (Coroutine_search_cars (search_params subscription)) ''listings'' of
        Inl e \<Rightarrow> Inl e
      | Inr listings \<Rightarrow>
          (case new_loop listings new_listings db of
             (new_listings', db') \<Rightarrow> check_loop rest new_listings' db'))"

definition check_for_new_listings ::
  "NotificationParams list \<Rightarrow> store \<Rightarrow> error + (CarListing list \<times> store)"
where
  "check_for_new_listings subscriptions db = check_loop subscriptions [] db"

text \<open>
  One pass of the loop of \<^verbatim>\<open>send_notifications\<close>, lines 154 to 162, up to the
  \<^verbatim>\<open>sleep\<close>: the message pushed to the socket, if any, and the store afterwards. The
  handler catches \<^verbatim>\<open>WebSocketDisconnect\<close> only, so an exception of
  \<^verbatim>\<open>check_for_new_listings\<close> leaves the loop.
\<close>

definition notification_tick ::
  "NotificationParams list \<Rightarrow> store \<Rightarrow> error + (CarListing list option \<times> store)"
where
  "notification_tick subscriptions db =
     (case check_for_new_listings subscriptions db of
        Inl e \<Rightarrow> Inl e
      | Inr (new_listings, db') \<Rightarrow>
          Inr (if new_listings \<noteq> [] then Some new_listings else None, db'))"

section \<open>The matcher in the words of the specification\<close>

text \<open>
  The specification reads the matcher as the conjunction of the filters that are set:
  range filters are inclusive bounds, a string filter is equality of the lower-cased
  strings. \<open>set_filters_hold\<close> is that conjunction over the six filters the source
  tests against a field of the listing, a filter counting as set when its value is
  neither \<^verbatim>\<open>None\<close> nor zero nor the empty string.
\<close>

definition set_filters_hold :: "CarListing \<Rightarrow> SearchParams \<Rightarrow> bool" where
  "set_filters_hold listing params =
     ((case min_price params of None \<Rightarrow> True | Some m \<Rightarrow> m = 0 \<or> m \<le> price listing) \<and>
      (case max_price params of None \<Rightarrow> True | Some m \<Rightarrow> m = 0 \<or> price listing \<le> m) \<and>
      (case min_year params of None \<Rightarrow> True | Some m \<Rightarrow> m = 0 \<or> m \<le> year listing) \<and>
      (case max_year params of None \<Rightarrow> True | Some m \<Rightarrow> m = 0 \<or> year listing \<le> m) \<and>
      (case max_mileage params of None \<Rightarrow> True | Some m \<Rightarrow> m = 0 \<or> mileage listing \<le> m) \<and>
      (case params_fuel_type params of
         None \<Rightarrow> True
       | Some f \<Rightarrow> f = [] \<or> lower (fuel_type listing) = lower f))"

section \<open>Sample data\<close>

text \<open>
  A listing with a given URL and price, a \<^verbatim>\<open>parse_listing\<close> over page elements that
  either hold a listing or are malformed, and a session that answers the
  \<^verbatim>\<open>leboncoin\<close> URL with one reply and every other URL with another.
\<close>

definition sample_listing :: "string \<Rightarrow> rat \<Rightarrow> CarListing" where
  "sample_listing u p =
     \<lparr>site_source = [], title = ''Renault Clio'', car_make = ''Renault'', model = ''Clio'',
      year = 2015, price = p, mileage = 80000, fuel_type = ''Diesel'', location = ''Lyon'',
      url = u, description = [], posting_date = 0, seller_type = ''private'', images = []\<rparr>"

definition from_site :: "string \<Rightarrow> CarListing \<Rightarrow> CarListing" where
  "from_site site_name listing = listing\<lparr>site_source := site_name\<rparr>"

definition parse_elem :: "string \<Rightarrow> CarListing option \<Rightarrow> error + CarListing" where
  "parse_elem site_name listing_elem =
     (case listing_elem of
        None \<Rightarrow> Inl ValueError
      | Some listing \<Rightarrow> Inr (from_site site_name listing))"

definition two_sites :: "'e reply \<Rightarrow> 'e reply \<Rightarrow> string \<Rightarrow> 'e reply" where
  "two_sites a b u = (if take 14 u = ''https://www.le'' then a else b)"

definition page :: "'e list \<Rightarrow> 'e reply" where
  "page elems = Reply 200 (\<lambda>selector. elems)"

definition subscription0 :: NotificationParams where
  "subscription0 = \<lparr>search_params = no_params, email = ''buyer@example.org''\<rparr>"

definition not_found :: "'e reply" where
  "not_found = Reply 404 (\<lambda>selector. [])"

text \<open>
  The scenario of two sources A and B: A has the listings with URLs \<open>u1\<close> and \<open>u2\<close>,
  B those with URLs \<open>u2\<close> and \<open>u3\<close>.
\<close>

definition sites_AB :: "string \<Rightarrow> CarListing option reply" where
  "sites_AB =
     two_sites (page [Some (sample_listing ''u1'' 7500), Some (sample_listing ''u2'' 7500)])
               (page [Some (sample_listing ''u2'' 7500), Some (sample_listing ''u3'' 7500)])"

text \<open>
  A page with a listing at each of the prices 4999, 7500 and 10001 and one malformed
  element, on the first source; the second source cannot be reached.
\<close>

definition sites_prices :: "string \<Rightarrow> CarListing option reply" where
  "sites_prices =
     two_sites (page [Some (sample_listing ''u1'' 4999), None, Some (sample_listing ''u2'' 7500),
                      Some (sample_listing ''u3'' 10001)])
               Raises"

definition price_5000_10000 :: SearchParams where
  "price_5000_10000 = no_params\<lparr>min_price := Some 5000, max_price := Some 10000\<rparr>"

section \<open>Auxiliary facts\<close>

lemmas world_defs =
  two_sites_def page_def parse_elem_def sample_listing_def from_site_def no_params_def

lemmas adapter_defs =
  search_cars_def scrape_site_def SITES_def strip_def fmt_opt_def is_space_def
  matches_criteria_def num_and_def str_and_def truthy_str_def insert_many_def

lemma lower_samples: "lower ''Diesel'' = ''diesel''" "lower ''DIESEL'' = ''diesel''"
  by code_simp+

text \<open>The loop keeps a listing only after the matcher has returned \<^verbatim>\<open>True\<close> for it.\<close>

lemma scrape_loop_sound:
  "L \<in> set (scrape_loop parse site params es) \<Longrightarrow> matches_criteria L params = Inr True"
  by (induction es) (auto split: sum.splits if_splits)

lemma scrape_site_sound:
  "scrape_site s parse n params = Inr (Some ls) \<Longrightarrow> L \<in> set ls
     \<Longrightarrow> matches_criteria L params = Inr True"
  by (auto simp: scrape_site_def Let_def split: option.splits reply.splits if_splits
           dest: scrape_loop_sound)

text \<open>\<^verbatim>\<open>search_cars\<close> over the two keys of \<^verbatim>\<open>SITES\<close>, written out.\<close>

lemma search_cars_sites:
  "search_cars s parse params db =
     (case scrape_site s parse ''leboncoin'' params of
        Inl e \<Rightarrow> Inl e
      | Inr ra \<Rightarrow>
          (case scrape_site s parse ''lacentrale'' params of
             Inl e \<Rightarrow> Inl e
           | Inr rb \<Rightarrow>
               (case ra of
                  None \<Rightarrow> Inl TypeError
                | Some as \<Rightarrow>
                    (case rb of
                       None \<Rightarrow> Inl TypeError
                     | Some bs \<Rightarrow>
                         Inr (as @ bs,
                              if as @ bs \<noteq> [] then insert_many db (as @ bs) else db)))))"
  by (simp add: search_cars_def SITES_def split: sum.splits option.splits)

text \<open>
  When the matcher is a total test \<open>f\<close> under one set of parameters and always true
  under another, the loop under the first is the loop under the second, filtered.
\<close>

lemma scrape_loop_filter:
  assumes "\<And>L. matches_criteria L p1 = Inr True"
    and "\<And>L. matches_criteria L p2 = Inr (f L)"
  shows "scrape_loop parse site p2 es = filter f (scrape_loop parse site p1 es)"
  by (induction es) (simp_all add: assms split: sum.splits)

lemma scrape_site_filter:
  assumes "\<And>L. matches_criteria L p1 = Inr True"
    and "\<And>L. matches_criteria L p2 = Inr (f L)"
    and "params_make p2 = params_make p1" and "params_model p2 = params_model p1"
  shows "scrape_site s parse n p2 =
           (case scrape_site s parse n p1 of
              Inl e \<Rightarrow> Inl e
            | Inr r \<Rightarrow> Inr (map_option (filter f) r))"
  using scrape_loop_filter [of p1 p2 f parse n, OF assms(1,2)]
  by (simp add: scrape_site_def Let_def assms(3,4) split: option.splits reply.splits)

lemma matches_no_params: "matches_criteria L no_params = Inr True"
  by (simp add: matches_criteria_def no_params_def num_and_def str_and_def truthy_str_def)

lemma matches_price_range:
  "matches_criteria L (no_params\<lparr>min_price := Some lo, max_price := Some hi\<rparr>) =
     Inr ((lo = 0 \<or> lo \<le> price L) \<and> (hi = 0 \<or> price L \<le> hi))"
  by (auto simp add: matches_criteria_def no_params_def num_and_def str_and_def truthy_str_def)

lemma matches_year_range:
  "matches_criteria L (no_params\<lparr>min_year := Some lo, max_year := Some hi\<rparr>) =
     Inr ((lo = 0 \<or> lo \<le> year L) \<and> (hi = 0 \<or> year L \<le> hi))"
  by (auto simp add: matches_criteria_def no_params_def num_and_def str_and_def truthy_str_def)

lemma matches_max_mileage:
  "matches_criteria L (no_params\<lparr>max_mileage := Some hi\<rparr>) = Inr (hi = 0 \<or> mileage L \<le> hi)"
  by (auto simp add: matches_criteria_def no_params_def num_and_def str_and_def truthy_str_def)

lemma search_cars_price_range:
  assumes "search_cars s parse no_params db = Inr (all_listings, db0)"
  shows "search_cars s parse price_5000_10000 db =
           Inr (filter (\<lambda>L. 5000 \<le> price L \<and> price L \<le> 10000) all_listings,
                db @ filter (\<lambda>L. 5000 \<le> price L \<and> price L \<le> 10000) all_listings)"
proof -
  let ?f = "\<lambda>L. 5000 \<le> price L \<and> price L \<le> 10000"
  have m: "\<And>L. matches_criteria L price_5000_10000 = Inr (?f L)"
    by (simp add: price_5000_10000_def matches_price_range)
  have q: "params_make price_5000_10000 = params_make no_params"
          "params_model price_5000_10000 = params_model no_params"
    by (simp_all add: price_5000_10000_def)
  have s: "\<And>n. scrape_site s parse n price_5000_10000 =
           (case scrape_site s parse n no_params of
              Inl e \<Rightarrow> Inl e
            | Inr r \<Rightarrow> Inr (map_option (filter ?f) r))"
    by (rule scrape_site_filter [OF matches_no_params m q])
  from assms show ?thesis
    by (auto simp: search_cars_sites s insert_many_def split: sum.splits option.splits)
qed

section \<open>Search returns matching listings only\<close>

text \<open>
  Claim C1. Whenever \<^verbatim>\<open>search_cars\<close> returns, for any session, any \<^verbatim>\<open>parse_listing\<close>,
  any parameters and any store, the matcher returns \<^verbatim>\<open>True\<close> on every listing of the
  returned sequence and the parameters of the call.
\<close>

theorem search_results_match:
  assumes "search_cars session parse_listing params db = Inr (listings, db')"
    and "L \<in> set listings"
  shows "matches_criteria L params = Inr True"
proof -
  from assms(1) obtain as bs where
    a: "scrape_site session parse_listing ''leboncoin'' params = Inr (Some as)" and
    b: "scrape_site session parse_listing ''lacentrale'' params = Inr (Some bs)" and
    l: "listings = as @ bs"
    by (auto simp: search_cars_sites split: sum.splits option.splits)
  from l assms(2) have "L \<in> set as \<or> L \<in> set bs" by simp
  then show ?thesis using a b scrape_site_sound by blast
qed

text \<open>
  The theorem at a search for prices from 5000 to 10000 over a page with four
  elements, of which one listing passes.
\<close>

theorem search_results_match_witness:
  "search_cars sites_prices parse_elem price_5000_10000 [] =
     Inr ([from_site ''leboncoin'' (sample_listing ''u2'' 7500)],
          [from_site ''leboncoin'' (sample_listing ''u2'' 7500)])
   \<and> matches_criteria (from_site ''leboncoin'' (sample_listing ''u2'' 7500)) price_5000_10000
       = Inr True"
proof -
  have h: "search_cars sites_prices parse_elem price_5000_10000 [] =
     Inr ([from_site ''leboncoin'' (sample_listing ''u2'' 7500)],
          [from_site ''leboncoin'' (sample_listing ''u2'' 7500)])"
    by (simp add: adapter_defs world_defs sites_prices_def price_5000_10000_def)
  show ?thesis
    using h search_results_match [OF h, of "from_site ''leboncoin'' (sample_listing ''u2'' 7500)"]
    by simp
qed

section \<open>What the matcher tests\<close>

text \<open>
  Claim C2 says that the matcher is true exactly when every present field of the
  parameters, \<^verbatim>\<open>make\<close>, \<^verbatim>\<open>model\<close> and \<^verbatim>\<open>location\<close> among them, matches the listing.
  The matcher does not read these three fields: a Renault passes a search for the make
  Peugeot.
\<close>

theorem make_filter_not_applied:
  "matches_criteria (sample_listing ''u1'' 7500) (no_params\<lparr>params_make := Some ''Peugeot''\<rparr>)
     = Inr True
   \<and> car_make (sample_listing ''u1'' 7500) = ''Renault''"
  by (simp add: adapter_defs world_defs)

text \<open>
  Claim C2 as amended. For finite prices and price bounds, and for parameters whose
  \<^verbatim>\<open>body_type\<close>, \<^verbatim>\<open>transmission\<close> and \<^verbatim>\<open>color\<close> are \<^verbatim>\<open>None\<close> or empty, the matcher
  returns the conjunction of the set
  filters among \<^verbatim>\<open>min_price\<close>, \<^verbatim>\<open>max_price\<close>, \<^verbatim>\<open>min_year\<close>, \<^verbatim>\<open>max_year\<close>,
  \<^verbatim>\<open>max_mileage\<close> and \<^verbatim>\<open>fuel_type\<close>, a filter being set when it is neither \<^verbatim>\<open>None\<close>
  nor zero nor empty; the values of \<^verbatim>\<open>make\<close>, \<^verbatim>\<open>model\<close> and \<^verbatim>\<open>location\<close> do not change
  the result.
\<close>

theorem matches_criteria_set_filters:
  assumes "\<not> truthy_str (body_type params)"
    and "\<not> truthy_str (transmission params)"
    and "\<not> truthy_str (color params)"
  shows "matches_criteria listing params = Inr (set_filters_hold listing params)
         \<and> matches_criteria listing
              (params\<lparr>params_make := mk, params_model := md, params_location := lc\<rparr>)
            = matches_criteria listing params"
  using assms
  by (auto simp add: matches_criteria_def set_filters_hold_def num_and_def str_and_def
           split: option.splits)

theorem matches_criteria_set_filters_witness:
  "\<not> truthy_str (body_type (price_5000_10000\<lparr>params_fuel_type := Some ''DIESEL''\<rparr>))
   \<and> \<not> truthy_str (transmission (price_5000_10000\<lparr>params_fuel_type := Some ''DIESEL''\<rparr>))
   \<and> \<not> truthy_str (color (price_5000_10000\<lparr>params_fuel_type := Some ''DIESEL''\<rparr>))
   \<and> set_filters_hold (sample_listing ''u1'' 7500)
        (price_5000_10000\<lparr>params_fuel_type := Some ''DIESEL''\<rparr>)
   \<and> matches_criteria (sample_listing ''u1'' 7500)
        (price_5000_10000\<lparr>params_fuel_type := Some ''DIESEL''\<rparr>) = Inr True
   \<and> matches_criteria (sample_listing ''u1'' 7500)
        (price_5000_10000\<lparr>params_fuel_type := Some ''DIESEL'', params_make := Some ''Peugeot'',
            params_model := None, params_location := Some ''Paris''\<rparr>) = Inr True"
proof -
  have t: "\<not> truthy_str (body_type (price_5000_10000\<lparr>params_fuel_type := Some ''DIESEL''\<rparr>))"
          "\<not> truthy_str (transmission (price_5000_10000\<lparr>params_fuel_type := Some ''DIESEL''\<rparr>))"
          "\<not> truthy_str (color (price_5000_10000\<lparr>params_fuel_type := Some ''DIESEL''\<rparr>))"
    by (simp_all add: truthy_str_def str_and_def world_defs price_5000_10000_def)
  have f: "set_filters_hold (sample_listing ''u1'' 7500)
             (price_5000_10000\<lparr>params_fuel_type := Some ''DIESEL''\<rparr>)"
    by (simp add: set_filters_hold_def world_defs price_5000_10000_def lower_samples)
  show ?thesis
    using t f matches_criteria_set_filters [OF t, where listing = "sample_listing ''u1'' 7500"
        and mk = "Some ''Peugeot''" and md = None and lc = "Some ''Paris''"]
    by simp
qed

section \<open>Two sources with a common URL\<close>

text \<open>
  Claim C3 says that, when source A has the URLs \<open>u1\<close>, \<open>u2\<close> and source B the URLs
  \<open>u2\<close>, \<open>u3\<close>, a search with empty parameters returns three listings and leaves three
  documents in the store. \<^verbatim>\<open>search_cars\<close> returns four listings, the one with URL
  \<open>u2\<close> once from each source, and inserts the four.
\<close>

theorem search_keeps_both_u2:
  "search_cars sites_AB parse_elem no_params [] =
     Inr ([from_site ''leboncoin'' (sample_listing ''u1'' 7500),
           from_site ''leboncoin'' (sample_listing ''u2'' 7500),
           from_site ''lacentrale'' (sample_listing ''u2'' 7500),
           from_site ''lacentrale'' (sample_listing ''u3'' 7500)],
          [from_site ''leboncoin'' (sample_listing ''u1'' 7500),
           from_site ''leboncoin'' (sample_listing ''u2'' 7500),
           from_site ''lacentrale'' (sample_listing ''u2'' 7500),
           from_site ''lacentrale'' (sample_listing ''u3'' 7500)])"
  by (simp add: adapter_defs world_defs sites_AB_def)

text \<open>
  Claim C3 as amended. When the two adapters return the sequences \<open>as\<close> and \<open>bs\<close>,
  \<^verbatim>\<open>search_cars\<close> returns \<open>as\<close> followed by \<open>bs\<close>, whatever URLs they share, and
  the store holds its former documents followed by all of \<open>as\<close> and \<open>bs\<close>: with the
  URLs \<open>u1\<close>, \<open>u2\<close> and \<open>u2\<close>, \<open>u3\<close> that is four listings and four documents more.
\<close>

theorem search_cars_concatenates:
  assumes "scrape_site session parse_listing ''leboncoin'' params = Inr (Some as)"
    and "scrape_site session parse_listing ''lacentrale'' params = Inr (Some bs)"
  shows "search_cars session parse_listing params db = Inr (as @ bs, db @ as @ bs)"
  using assms by (simp add: search_cars_sites insert_many_def)

theorem search_cars_concatenates_witness:
  "scrape_site sites_AB parse_elem ''leboncoin'' no_params =
     Inr (Some [from_site ''leboncoin'' (sample_listing ''u1'' 7500),
                from_site ''leboncoin'' (sample_listing ''u2'' 7500)])
   \<and> scrape_site sites_AB parse_elem ''lacentrale'' no_params =
     Inr (Some [from_site ''lacentrale'' (sample_listing ''u2'' 7500),
                from_site ''lacentrale'' (sample_listing ''u3'' 7500)])
   \<and> search_cars sites_AB parse_elem no_params [] =
     Inr ([from_site ''leboncoin'' (sample_listing ''u1'' 7500),
           from_site ''leboncoin'' (sample_listing ''u2'' 7500)]
          @ [from_site ''lacentrale'' (sample_listing ''u2'' 7500),
             from_site ''lacentrale'' (sample_listing ''u3'' 7500)],
          [] @ [from_site ''leboncoin'' (sample_listing ''u1'' 7500),
                from_site ''leboncoin'' (sample_listing ''u2'' 7500)]
          @ [from_site ''lacentrale'' (sample_listing ''u2'' 7500),
             from_site ''lacentrale'' (sample_listing ''u3'' 7500)])"
proof -
  have a: "scrape_site sites_AB parse_elem ''leboncoin'' no_params =
     Inr (Some [from_site ''leboncoin'' (sample_listing ''u1'' 7500),
                from_site ''leboncoin'' (sample_listing ''u2'' 7500)])"
    by (simp add: adapter_defs world_defs sites_AB_def)
  have b: "scrape_site sites_AB parse_elem ''lacentrale'' no_params =
     Inr (Some [from_site ''lacentrale'' (sample_listing ''u2'' 7500),
                from_site ''lacentrale'' (sample_listing ''u3'' 7500)])"
    by (simp add: adapter_defs world_defs sites_AB_def)
  show ?thesis
    using a b search_cars_concatenates [OF a b, of "[]"] by blast
qed

section \<open>A source that answers with another status than 200\<close>

text \<open>
  Claim C4 says that an adapter contributes an empty sequence when the response is
  not a success, so that the search returns what the other sources found. Here the
  first source answers 404 and the second has one listing: \<^verbatim>\<open>scrape_site\<close> returns
  \<^verbatim>\<open>None\<close> for the first, a list for the second, and \<^verbatim>\<open>search_cars\<close> raises
  \<^verbatim>\<open>TypeError\<close>.
\<close>

theorem non_200_reply_fails_search:
  "scrape_site (two_sites not_found (page [Some (sample_listing ''u3'' 7500)])) parse_elem
      ''leboncoin'' no_params = Inr None
   \<and> scrape_site (two_sites not_found (page [Some (sample_listing ''u3'' 7500)])) parse_elem
      ''lacentrale'' no_params = Inr (Some [from_site ''lacentrale'' (sample_listing ''u3'' 7500)])
   \<and> search_cars (two_sites not_found (page [Some (sample_listing ''u3'' 7500)])) parse_elem
      no_params [] = Inl TypeError"
  by (simp add: adapter_defs world_defs not_found_def)

section \<open>The notification tick\<close>

text \<open>
  Claim C5 describes a tick that pushes the listings not yet stored and stores them.
  With at least one subscription, \<^verbatim>\<open>check_for_new_listings\<close> raises \<^verbatim>\<open>TypeError\<close> at
  the first subscription, whatever the store holds, and so does the pass of the
  notification loop: nothing is pushed and nothing is stored.
\<close>

theorem tick_raises_on_subscription:
  "check_for_new_listings (subscription # rest) db = Inl TypeError
   \<and> notification_tick (subscription # rest) db = Inl TypeError"
  by (simp add: check_for_new_listings_def notification_tick_def getitem_def)

section \<open>Subscribing and unsubscribing\<close>

text \<open>
  Claim C6 says that the first subscription of a pair returns the created outcome and
  a second one the duplicate outcome, the registry holding the pair once. The first
  call, on the empty registry, raises \<^verbatim>\<open>TypeError\<close> at line 140 and leaves the
  registry empty; so does every call, whatever the pair and the registry.
\<close>

theorem subscribe_raises_type_error:
  "subscribe_to_notifications subscription0 {} = (Inl TypeError, {})
   \<and> subscribe_to_notifications params active_subscriptions
       = (Inl TypeError, active_subscriptions)"
  by (simp add: subscribe_to_notifications_def set_add_def hash_params_def)

text \<open>
  Claim C8 says that unsubscribing a pair that is not registered returns the not-found
  outcome and that unsubscribing a registered pair removes it. The call for a pair
  that is not registered raises \<^verbatim>\<open>TypeError\<close> at the membership test of line 145, not
  the 404 exception; so does every call, and the registry is left as it was.
\<close>

theorem unsubscribe_raises_type_error:
  "unsubscribe_from_notifications subscription0 {} = (Inl TypeError, {})
   \<and> unsubscribe_from_notifications params active_subscriptions
       = (Inl TypeError, active_subscriptions)"
  by (simp add: unsubscribe_from_notifications_def set_contains_def hash_params_def)

section \<open>Filters on fields a listing does not have\<close>

text \<open>
  Claim C7 says that the matcher never raises and returns \<^verbatim>\<open>False\<close> when
  \<^verbatim>\<open>body_type\<close>, \<^verbatim>\<open>transmission\<close> or \<^verbatim>\<open>color\<close> is set and the listing has no data for
  it. With one of the three set and no other filter, the matcher raises
  \<^verbatim>\<open>AttributeError\<close> on every listing.
\<close>

theorem missing_field_raises:
  "matches_criteria L (no_params\<lparr>body_type := Some ''SUV''\<rparr>) = Inl AttributeError
   \<and> matches_criteria L (no_params\<lparr>transmission := Some ''manual''\<rparr>) = Inl AttributeError
   \<and> matches_criteria L (no_params\<lparr>color := Some ''red''\<rparr>) = Inl AttributeError"
  by (simp add: matches_criteria_def num_and_def str_and_def truthy_str_def no_params_def)

section \<open>Range filters\<close>

text \<open>
  Claim C9. The bounds on price, year and mileage are inclusive. With a price range
  from 5000 to 10000 the matcher rejects every listing priced 4999 or 10001 and accepts
  every listing priced 7500; when the search with empty parameters returns, the search
  with that range returns exactly those of its listings priced from 5000 to 10000, and
  stores them. With only a range set, the matcher is the test of the inclusive bounds
  (a bound of zero does not count), and a listing whose price, year or mileage equals
  the bound passes.
\<close>

theorem range_bounds_inclusive:
  "matches_criteria (L\<lparr>price := 4999\<rparr>) price_5000_10000 = Inr False
   \<and> matches_criteria (L\<lparr>price := 10001\<rparr>) price_5000_10000 = Inr False
   \<and> matches_criteria (L\<lparr>price := 7500\<rparr>) price_5000_10000 = Inr True
   \<and> (search_cars session parse_listing no_params db = Inr (all_listings, db0) \<longrightarrow>
        search_cars session parse_listing price_5000_10000 db =
          Inr (filter (\<lambda>L. 5000 \<le> price L \<and> price L \<le> 10000) all_listings,
               db @ filter (\<lambda>L. 5000 \<le> price L \<and> price L \<le> 10000) all_listings))
   \<and> matches_criteria L (no_params\<lparr>min_price := Some lo, max_price := Some hi\<rparr>) =
        Inr ((lo = 0 \<or> lo \<le> price L) \<and> (hi = 0 \<or> price L \<le> hi))
   \<and> matches_criteria L (no_params\<lparr>min_year := Some ylo, max_year := Some yhi\<rparr>) =
        Inr ((ylo = 0 \<or> ylo \<le> year L) \<and> (yhi = 0 \<or> year L \<le> yhi))
   \<and> matches_criteria L (no_params\<lparr>max_mileage := Some m\<rparr>) = Inr (m = 0 \<or> mileage L \<le> m)
   \<and> matches_criteria L (no_params\<lparr>min_price := Some (price L), max_price := Some (price L)\<rparr>)
        = Inr True
   \<and> matches_criteria L (no_params\<lparr>min_year := Some (year L), max_year := Some (year L)\<rparr>)
        = Inr True
   \<and> matches_criteria L (no_params\<lparr>max_mileage := Some (mileage L)\<rparr>) = Inr True"
  using search_cars_price_range [of session parse_listing db all_listings db0]
  by (simp add: matches_price_range matches_year_range matches_max_mileage price_5000_10000_def)

text \<open>
  The theorem on a page with listings priced 4999, 7500 and 10001: the search with
  the range returns the one priced 7500.
\<close>

theorem range_bounds_inclusive_witness:
  "search_cars sites_prices parse_elem no_params [] =
     Inr ([from_site ''leboncoin'' (sample_listing ''u1'' 4999),
           from_site ''leboncoin'' (sample_listing ''u2'' 7500),
           from_site ''leboncoin'' (sample_listing ''u3'' 10001)],
          [from_site ''leboncoin'' (sample_listing ''u1'' 4999),
           from_site ''leboncoin'' (sample_listing ''u2'' 7500),
           from_site ''leboncoin'' (sample_listing ''u3'' 10001)])
   \<and> search_cars sites_prices parse_elem price_5000_10000 [] =
     Inr ([from_site ''leboncoin'' (sample_listing ''u2'' 7500)],
          [from_site ''leboncoin'' (sample_listing ''u2'' 7500)])"
proof -
  have h: "search_cars sites_prices parse_elem no_params [] =
     Inr ([from_site ''leboncoin'' (sample_listing ''u1'' 4999),
           from_site ''leboncoin'' (sample_listing ''u2'' 7500),
           from_site ''leboncoin'' (sample_listing ''u3'' 10001)],
          [from_site ''leboncoin'' (sample_listing ''u1'' 4999),
           from_site ''leboncoin'' (sample_listing ''u2'' 7500),
           from_site ''leboncoin'' (sample_listing ''u3'' 10001)])"
    by (simp add: adapter_defs world_defs sites_prices_def price_5000_10000_def)
  have p: "price (from_site ''leboncoin'' (sample_listing ''u1'' 4999)) = 4999"
          "price (from_site ''leboncoin'' (sample_listing ''u2'' 7500)) = 7500"
          "price (from_site ''leboncoin'' (sample_listing ''u3'' 10001)) = 10001"
    by (simp_all add: world_defs sites_prices_def price_5000_10000_def)
  show ?thesis
    using h p range_bounds_inclusive [where session = sites_prices
        and parse_listing = parse_elem and db = "[]"
        and all_listings = "[from_site ''leboncoin'' (sample_listing ''u1'' 4999),
          from_site ''leboncoin'' (sample_listing ''u2'' 7500),
          from_site ''leboncoin'' (sample_listing ''u3'' 10001)]"
        and ?db0.0 = "[from_site ''leboncoin'' (sample_listing ''u1'' 4999),
          from_site ''leboncoin'' (sample_listing ''u2'' 7500),
          from_site ''leboncoin'' (sample_listing ''u3'' 10001)]"]
    by simp
qed

section \<open>A bound of zero\<close>

text \<open>
  Claim C10. A numeric filter set to zero is treated as an absent one: for each of
  \<^verbatim>\<open>min_price\<close>, \<^verbatim>\<open>max_price\<close>, \<^verbatim>\<open>min_year\<close>, \<^verbatim>\<open>max_year\<close> and \<^verbatim>\<open>max_mileage\<close>, the
  matcher gives the same result with the field at zero as with the field at \<^verbatim>\<open>None\<close>,
  whatever the listing and the other fields; with the five at zero and nothing else
  set, every listing passes.
\<close>

theorem zero_bound_is_no_bound:
  "matches_criteria L (params\<lparr>min_price := Some 0\<rparr>)
     = matches_criteria L (params\<lparr>min_price := None\<rparr>)
   \<and> matches_criteria L (params\<lparr>max_price := Some 0\<rparr>)
     = matches_criteria L (params\<lparr>max_price := None\<rparr>)
   \<and> matches_criteria L (params\<lparr>min_year := Some 0\<rparr>)
     = matches_criteria L (params\<lparr>min_year := None\<rparr>)
   \<and> matches_criteria L (params\<lparr>max_year := Some 0\<rparr>)
     = matches_criteria L (params\<lparr>max_year := None\<rparr>)
   \<and> matches_criteria L (params\<lparr>max_mileage := Some 0\<rparr>)
     = matches_criteria L (params\<lparr>max_mileage := None\<rparr>)
   \<and> matches_criteria L
       (no_params\<lparr>min_price := Some 0, max_price := Some 0, min_year := Some 0,
                  max_year := Some 0, max_mileage := Some 0\<rparr>) = Inr True"
  by (simp add: matches_criteria_def num_and_def str_and_def truthy_str_def no_params_def)

text \<open>
  The theorem at a listing priced 7500 and a maximal price of zero: the listing
  passes, as it does without the bound.
\<close>

theorem zero_bound_is_no_bound_witness:
  "matches_criteria (sample_listing ''u1'' 7500) (no_params\<lparr>max_price := Some 0\<rparr>) = Inr True
   \<and> matches_criteria (sample_listing ''u1'' 7500) (no_params\<lparr>max_price := None\<rparr>) = Inr True"
  using zero_bound_is_no_bound [of "sample_listing ''u1'' 7500" no_params]
  by (simp add: matches_criteria_def num_and_def str_and_def truthy_str_def no_params_def)

end
